theory Spec2Isabelle
  imports Main
begin

section \<open>Overwitch command-line launcher (main-cli.c)\<close>

text \<open>
  A shallow embedding of \<^verbatim>\<open>src/main-cli.c\<close>: the option loop of \<^verbatim>\<open>main\<close>, the two
  orchestrators \<^verbatim>\<open>run_single\<close> and \<^verbatim>\<open>run_all\<close>, and \<^verbatim>\<open>signal_handler\<close>.

  The functions of other translation units (\<^verbatim>\<open>ow_get_devices\<close>,
  \<^verbatim>\<open>ow_get_usb_device_from_device_attrs\<close>, \<^verbatim>\<open>jclient_init\<close>, \<^verbatim>\<open>print_devices\<close>) are
  fields of a record \<open>world\<close> that every function takes as a parameter. Every call with an
  effect outside the process image (output on stderr, a call into the USB layer, a thread
  operation) is appended to a trace of events, in program order. A run ends with an exit
  status, or with a fault where the behaviour of the C program is undefined; the trace
  then holds the events up to and including the faulting call.
\<close>

subsection \<open>Constants\<close>

definition DEFAULT_QUALITY :: int where "DEFAULT_QUALITY = 2"
definition DEFAULT_BLOCKS :: int where "DEFAULT_BLOCKS = 24"
definition DEFAULT_PRIORITY :: int where "DEFAULT_PRIORITY = - 1"

definition EXIT_SUCCESS :: int where "EXIT_SUCCESS = 0"
definition EXIT_FAILURE :: int where "EXIT_FAILURE = 1"

text \<open>
  Modelled from the spec: the enumeration \<^verbatim>\<open>ow_err_t\<close> is declared in a header that is
  not under src/. The code tests these values with \<^verbatim>\<open>if (err)\<close> and returns them from
  \<^verbatim>\<open>main\<close>; the spec gives exit status 0 for success and a non-zero status for a
  single-device initialization failure, so \<^verbatim>\<open>OW_OK\<close> is 0 and \<^verbatim>\<open>OW_GENERIC_ERROR\<close>,
  the next enumerator, is 1.
\<close>

definition OW_OK :: int where "OW_OK = 0"
definition OW_GENERIC_ERROR :: int where "OW_GENERIC_ERROR = 1"

text \<open>Signal numbers and \<^verbatim>\<open>ERANGE\<close> as Linux defines them.\<close>

definition SIGHUP :: int where "SIGHUP = 1"
definition SIGINT :: int where "SIGINT = 2"
definition SIGUSR1 :: int where "SIGUSR1 = 10"
definition SIGTERM :: int where "SIGTERM = 15"
definition ERANGE :: int where "ERANGE = 34"

text \<open>
  The program targets Linux on LP64 machines: \<^verbatim>\<open>long\<close> has 64 bits, \<^verbatim>\<open>int\<close> has 32.
\<close>

definition LONG_MAX :: int where "LONG_MAX = 9223372036854775807"
definition LONG_MIN :: int where "LONG_MIN = - 9223372036854775808"

text \<open>
  The conversion \<^verbatim>\<open>(int) x\<close> of a \<^verbatim>\<open>long\<close>: the value is reduced modulo \<open>2 ^ 32\<close> into
  the range of \<^verbatim>\<open>int\<close> (the behaviour GCC and Clang define for it).
\<close>

definition int_of_long :: "int \<Rightarrow> int" where
  "int_of_long x = (x + 2147483648) mod 4294967296 - 2147483648"

subsection \<open>The C library's strtol, base 10\<close>

text \<open>
  \<^verbatim>\<open>strtol (nptr, &endstr, 10)\<close> after ISO C 7.22.1.4: leading white space is skipped,
  an optional sign is read, then the longest run of decimal digits. Without a digit
  nothing is converted: the result is 0 and \<^verbatim>\<open>endstr\<close> is \<^verbatim>\<open>nptr\<close>. A value outside
  the range of \<^verbatim>\<open>long\<close> is clamped and \<^verbatim>\<open>errno\<close> becomes \<^verbatim>\<open>ERANGE\<close>; otherwise
  \<^verbatim>\<open>errno\<close> is left as it was. \<open>endstr\<close> is the offset of the end pointer from the start
  of the string.
\<close>

definition isspace :: "char \<Rightarrow> bool" where
  "isspace c \<longleftrightarrow> (of_char c :: nat) = 32 \<or> (9 \<le> (of_char c :: nat) \<and> (of_char c :: nat) \<le> 13)"

definition isdigit :: "char \<Rightarrow> bool" where
  "isdigit c \<longleftrightarrow> 48 \<le> (of_char c :: nat) \<and> (of_char c :: nat) \<le> 57"

definition digit_value :: "char \<Rightarrow> int" where
  "digit_value c = int (of_char c) - 48"

fun accumulate :: "int \<Rightarrow> string \<Rightarrow> int" where
  "accumulate acc [] = acc"
| "accumulate acc (c # cs) = accumulate (acc * 10 + digit_value c) cs"

record strtol_result =
  conv_value :: int
  endstr :: nat
  conv_errno :: int

definition strtol :: "string \<Rightarrow> int \<Rightarrow> strtol_result" where
  "strtol nptr errno_in =
     (let ws = length (takeWhile isspace nptr);
          s1 = drop ws nptr;
          neg = (case s1 of [] \<Rightarrow> False | c # _ \<Rightarrow> c = CHR ''-'');
          sg = (case s1 of [] \<Rightarrow> 0 | c # _ \<Rightarrow> if c = CHR ''-'' \<or> c = CHR ''+'' then 1 else 0);
          ds = takeWhile isdigit (drop sg s1);
          v = (if neg then - accumulate 0 ds else accumulate 0 ds)
      in if ds = [] then \<lparr>conv_value = 0, endstr = 0, conv_errno = errno_in\<rparr>
         else if v > LONG_MAX
           then \<lparr>conv_value = LONG_MAX, endstr = ws + sg + length ds, conv_errno = ERANGE\<rparr>
         else if v < LONG_MIN
           then \<lparr>conv_value = LONG_MIN, endstr = ws + sg + length ds, conv_errno = ERANGE\<rparr>
         else \<lparr>conv_value = v, endstr = ws + sg + length ds, conv_errno = errno_in\<rparr>)"

subsection \<open>Data\<close>

text \<open>
  \<^verbatim>\<open>struct ow_usb_device\<close> and \<^verbatim>\<open>struct jclient\<close> are declared in headers that are
  not under src/; the records hold the fields that main-cli.c reads and writes, and the
  device name the selection by name compares. \<open>None\<close> is the \<^verbatim>\<open>NULL\<close> pointer.
\<close>

record ow_usb_device =
  name :: string
  bus :: nat
  address :: nat

record jclient =
  jclient_bus :: nat
  jclient_address :: nat
  jclient_blocks_per_transfer :: int
  jclient_quality :: int
  jclient_priority :: int
  jclient_reporter_callback :: "nat option"
  jclient_reporter_period :: int
  jclient_end_notifier :: "nat option"

type_synonym pthread_t = nat

text \<open>
  \<^verbatim>\<open>struct overwitch_instance\<close>. Memory from \<^verbatim>\<open>malloc\<close> is not initialised: a field
  is \<open>None\<close> until the program writes it.
\<close>

record overwitch_instance =
  thread :: "pthread_t option"
  jclient :: "jclient option"

datatype event =
    Warn_quality int
  | Warn_blocks int
  | Warn_priority
  | Print_help
  | Call_print_devices
  | Stderr_usb_error int
  | Stderr_undetermined_blocks
  | Stderr_undetermined_priority
  | Stderr_device_not_provided
  | Call_get_devices
  | Call_get_usb_device_from_device_attrs int "string option"
  | Call_jclient_init nat
  | Pthread_create nat
  | Pthread_join nat "pthread_t option"
  | Free_device
  | Free_usb_device_list
  | Free_instances
  | Call_jclient_exit nat
  | Call_report_status nat

text \<open>
  The process state: \<^verbatim>\<open>errno\<close>, the globals \<^verbatim>\<open>debug_level\<close>, \<^verbatim>\<open>instance_count\<close>
  and \<^verbatim>\<open>instances\<close>, the signals with \<^verbatim>\<open>signal_handler\<close> installed, and the trace.
\<close>

record proc =
  errno :: int
  debug_level :: int
  handled :: "int list"
  instance_count :: nat
  instances :: "overwitch_instance list"
  trace :: "event list"

definition emit :: "event \<Rightarrow> proc \<Rightarrow> proc" where
  "emit e p = p\<lparr>trace := trace p @ [e]\<rparr>"

text \<open>
  The collaborators outside main-cli.c, by what each call returns. \<open>fprintf_errno\<close> is
  what a \<^verbatim>\<open>fprintf (stderr, ...)\<close> makes of \<^verbatim>\<open>errno\<close>: the identity when the write
  succeeds, an error number when it fails (a closed stderr).
\<close>

record world =
  ow_get_devices :: "int \<times> ow_usb_device list"
  ow_get_usb_device_from_device_attrs :: "int \<Rightarrow> string option \<Rightarrow> ow_usb_device option"
  jclient_init :: "jclient \<Rightarrow> int"
  print_devices :: int
  fprintf_errno :: "int \<Rightarrow> int"

definition fprintf_stderr :: "world \<Rightarrow> event \<Rightarrow> proc \<Rightarrow> proc" where
  "fprintf_stderr w e p = emit e (p\<lparr>errno := fprintf_errno w (errno p)\<rparr>)"

text \<open>
  \<^verbatim>\<open>pthread_join\<close> on a \<^verbatim>\<open>pthread_t\<close> that no \<^verbatim>\<open>pthread_create\<close> has written is
  undefined behaviour: the run has no exit status, and nothing is known of what follows
  the call.
\<close>

datatype fault = Join_unwritten_handle nat

subsection \<open>signal_handler\<close>

text \<open>
  The loops of this file run \<^verbatim>\<open>for (int i = 0; i < instance_count; i++, instance++)\<close>.
  \<^verbatim>\<open>instance_count\<close> is the number of enumerated USB devices, far below
  \<^verbatim>\<open>INT_MAX\<close>, so the index does not overflow and is a natural number here; the
  pointer \<^verbatim>\<open>instance\<close> is the entry at index \<open>i\<close>.
\<close>

function exit_loop :: "nat \<Rightarrow> proc \<Rightarrow> proc" where
  "exit_loop i p =
     (if i < instance_count p then exit_loop (i + 1) (emit (Call_jclient_exit i) p) else p)"
  by pat_completeness auto
termination
  by (relation "measure (\<lambda>(i, p). instance_count p - i)") (auto simp: emit_def)

function report_loop :: "nat \<Rightarrow> proc \<Rightarrow> proc" where
  "report_loop i p =
     (if i < instance_count p then report_loop (i + 1) (emit (Call_report_status i) p) else p)"
  by pat_completeness auto
termination
  by (relation "measure (\<lambda>(i, p). instance_count p - i)") (auto simp: emit_def)

definition signal_handler :: "int \<Rightarrow> proc \<Rightarrow> proc" where
  "signal_handler signo p =
     (if signo = SIGHUP \<or> signo = SIGINT \<or> signo = SIGTERM then exit_loop 0 p
      else if signo = SIGUSR1 then report_loop 0 p
      else p)"

subsection \<open>run_single and run_all\<close>

text \<open>
  The eight assignments to the fields of \<^verbatim>\<open>jclient\<close>, the same in \<^verbatim>\<open>run_single\<close> and
  in the loop of \<^verbatim>\<open>run_all\<close>.
\<close>

definition configure :: "ow_usb_device \<Rightarrow> int \<Rightarrow> int \<Rightarrow> int \<Rightarrow> jclient" where
  "configure device blocks_per_transfer quality priority =
     \<lparr>jclient_bus = bus device,
      jclient_address = address device,
      jclient_blocks_per_transfer = blocks_per_transfer,
      jclient_quality = quality,
      jclient_priority = priority,
      jclient_reporter_callback = None,
      jclient_reporter_period = 2,
      jclient_end_notifier = None\<rparr>"

definition malloc_instance :: overwitch_instance where
  "malloc_instance = \<lparr>thread = None, jclient = None\<rparr>"

text \<open>
  \<^verbatim>\<open>pthread_create\<close> stores a handle in \<^verbatim>\<open>instance->thread\<close>; the model takes the
  index of the instance as the handle. The code ignores what \<^verbatim>\<open>pthread_create\<close> and
  \<^verbatim>\<open>pthread_join\<close> return. In \<^verbatim>\<open>run_single\<close> the handle that is joined has just
  been written.
\<close>

definition run_single ::
    "world \<Rightarrow> int \<Rightarrow> string option \<Rightarrow> int \<Rightarrow> int \<Rightarrow> int \<Rightarrow> proc \<Rightarrow> (fault + int) \<times> proc" where
  "run_single w device_num device_name blocks_per_transfer quality priority p =
     (let p1 = emit (Call_get_usb_device_from_device_attrs device_num device_name) p
      in case ow_get_usb_device_from_device_attrs w device_num device_name of
           None \<Rightarrow> (Inr OW_GENERIC_ERROR, p1)
         | Some device \<Rightarrow>
             (let jc = configure device blocks_per_transfer quality priority;
                  p2 = p1\<lparr>instance_count := 1,
                          instances := [malloc_instance\<lparr>jclient := Some jc\<rparr>]\<rparr>;
                  p3 = emit (Call_jclient_init 0) (emit Free_device p2)
              in if jclient_init w jc \<noteq> 0
                 then (Inr OW_GENERIC_ERROR, emit Free_instances p3)
                 else
                   (let p4 = emit (Pthread_create 0)
                               (p3\<lparr>instances :=
                                     (instances p3)[0 := (instances p3 ! 0)\<lparr>thread := Some 0\<rparr>]\<rparr>);
                        p5 = emit (Pthread_join 0 (thread (instances p4 ! 0))) p4
                    in (Inr OW_OK, emit Free_instances p5))))"

function spawn_loop ::
    "world \<Rightarrow> int \<Rightarrow> int \<Rightarrow> int \<Rightarrow> ow_usb_device list \<Rightarrow> nat \<Rightarrow> proc \<Rightarrow> proc" where
  "spawn_loop w blocks_per_transfer quality priority devices i p =
     (if i < instance_count p then
        (let jc = configure (devices ! i) blocks_per_transfer quality priority;
             p1 = p\<lparr>instances := (instances p)[i := (instances p ! i)\<lparr>jclient := Some jc\<rparr>]\<rparr>;
             p2 = emit (Call_jclient_init i) p1
         in if jclient_init w jc \<noteq> 0
            then spawn_loop w blocks_per_transfer quality priority devices (i + 1) p2
            else spawn_loop w blocks_per_transfer quality priority devices (i + 1)
                   (emit (Pthread_create i)
                      (p2\<lparr>instances :=
                            (instances p2)[i := (instances p2 ! i)\<lparr>thread := Some i\<rparr>]\<rparr>)))
      else p)"
  by pat_completeness auto
termination
  by (relation "measure (\<lambda>(w, b, q, pr, devices, i, p). instance_count p - i)")
     (auto simp: emit_def)

text \<open>
  The join loop of \<^verbatim>\<open>run_all\<close>. An entry whose \<^verbatim>\<open>jclient_init\<close> failed has the
  handle \<^verbatim>\<open>malloc\<close> left: the call of \<^verbatim>\<open>pthread_join\<close> on it is recorded and the
  loop ends there with the fault.
\<close>

function join_loop :: "nat \<Rightarrow> proc \<Rightarrow> fault option \<times> proc" where
  "join_loop i p =
     (if i < instance_count p then
        (let p1 = emit (Pthread_join i (thread (instances p ! i))) p
         in case thread (instances p ! i) of
              None \<Rightarrow> (Some (Join_unwritten_handle i), p1)
            | Some h \<Rightarrow> join_loop (i + 1) p1)
      else (None, p))"
  by pat_completeness auto
termination
  by (relation "measure (\<lambda>(i, p). instance_count p - i)") (auto simp: emit_def)

definition run_all ::
    "world \<Rightarrow> int \<Rightarrow> int \<Rightarrow> int \<Rightarrow> proc \<Rightarrow> (fault + int) \<times> proc" where
  "run_all w blocks_per_transfer quality priority p =
     (let err = fst (ow_get_devices w);
          devices = snd (ow_get_devices w);
          p1 = emit Call_get_devices (p\<lparr>instance_count := length devices\<rparr>)
      in if err \<noteq> 0 then (Inr err, p1)
         else
           (let p2 = p1\<lparr>instances := replicate (instance_count p1) malloc_instance\<rparr>;
                p3 = spawn_loop w blocks_per_transfer quality priority devices 0 p2;
                p4 = emit Free_usb_device_list p3;
                r = join_loop 0 p4
            in case fst r of
                 Some f \<Rightarrow> (Inl f, snd r)
               | None \<Rightarrow> (Inr OW_OK, emit Free_instances (snd r))))"

subsection \<open>Device resolution, as the spec describes it\<close>

text \<open>
  Modelled from the spec: \<^verbatim>\<open>ow_get_usb_device_from_device_attrs\<close> is defined in a
  source file that is not under src/. The spec: "By index: resolves the Nth device in
  device-enumeration order; fails with DeviceNotFound if out of range or enumeration is
  empty. By name: resolves the first device whose platform-reported name matches exactly;
  fails with DeviceNotFound otherwise", and enumeration failures abort the resolution
  too. The first argument is what the enumeration returns (\<^verbatim>\<open>ow_get_devices\<close>); the
  selection is by index when no name is given. \<open>None\<close> is the failure.
\<close>

definition device_from_attrs ::
    "int \<times> ow_usb_device list \<Rightarrow> int \<Rightarrow> string option \<Rightarrow> ow_usb_device option" where
  "device_from_attrs enumeration device_num device_name =
     (if fst enumeration \<noteq> 0 then None
      else case device_name of
             None \<Rightarrow>
               if 0 \<le> device_num \<and> nat device_num < length (snd enumeration)
               then Some (snd enumeration ! nat device_num) else None
           | Some n \<Rightarrow> find (\<lambda>d. name d = n) (snd enumeration))"

subsection \<open>main\<close>

text \<open>
  The command line as \<^verbatim>\<open>getopt_long\<close> reports it: one value for each call that does
  not return -1, in order, with \<^verbatim>\<open>optarg\<close> where the option takes an argument.
  \<open>Opt_unknown\<close> is the return value \<^verbatim>\<open>'?'\<close> (an option that is not in the table, or
  a missing argument).
\<close>

datatype getopt_result =
    Opt_n string
  | Opt_d string
  | Opt_q string
  | Opt_b string
  | Opt_p string
  | Opt_l
  | Opt_v
  | Opt_h
  | Opt_unknown

record main_locals =
  vflg :: int
  lflg :: int
  dflg :: int
  bflg :: int
  pflg :: int
  nflg :: int
  errflg :: int
  device_name :: "string option"
  device_num :: int
  blocks_per_transfer :: int
  quality :: int
  priority :: int

definition main_locals_init :: main_locals where
  "main_locals_init =
     \<lparr>vflg = 0, lflg = 0, dflg = 0, bflg = 0, pflg = 0, nflg = 0, errflg = 0,
      device_name = None, device_num = - 1,
      blocks_per_transfer = DEFAULT_BLOCKS, quality = DEFAULT_QUALITY,
      priority = DEFAULT_PRIORITY\<rparr>"

text \<open>
  One pass through the \<^verbatim>\<open>switch\<close>. \<open>Inl\<close> is a call of \<^verbatim>\<open>exit\<close> with its status
  (in the result of \<^verbatim>\<open>main\<close>, \<open>Inr\<close> is the exit status and \<open>Inl\<close> a fault).
  \<^verbatim>\<open>errno\<close> is never reset by the program: what a \<^verbatim>\<open>strtol\<close> or the
  \<^verbatim>\<open>fprintf\<close> of a warning leaves is what the next test reads.
  \<^verbatim>\<open>*endstr != '\0'\<close> is \<open>endstr r < length optarg\<close>.
\<close>

fun main_switch ::
    "world \<Rightarrow> getopt_result \<Rightarrow> main_locals \<Rightarrow> proc \<Rightarrow>
       (int \<times> proc) + (main_locals \<times> proc)" where
  "main_switch w (Opt_n optarg) l p =
     (let r = strtol optarg (errno p)
      in Inr (l\<lparr>device_num := int_of_long (conv_value r), nflg := nflg l + 1\<rparr>,
              p\<lparr>errno := conv_errno r\<rparr>))"
| "main_switch w (Opt_d optarg) l p =
     Inr (l\<lparr>device_name := Some optarg, dflg := dflg l + 1\<rparr>, p)"
| "main_switch w (Opt_q optarg) l p =
     (let r = strtol optarg (errno p);
          v = int_of_long (conv_value r);
          p1 = p\<lparr>errno := conv_errno r\<rparr>
      in if conv_errno r \<noteq> 0 \<or> endstr r = 0 \<or> endstr r < length optarg \<or> v > 4 \<or> v < 0
         then Inr (l\<lparr>quality := DEFAULT_QUALITY\<rparr>, fprintf_stderr w (Warn_quality DEFAULT_QUALITY) p1)
         else Inr (l\<lparr>quality := v\<rparr>, p1))"
| "main_switch w (Opt_b optarg) l p =
     (let r = strtol optarg (errno p);
          v = int_of_long (conv_value r);
          p1 = p\<lparr>errno := conv_errno r\<rparr>
      in if conv_errno r \<noteq> 0 \<or> endstr r = 0 \<or> endstr r < length optarg \<or> v < 2 \<or> v > 32
         then Inr (l\<lparr>blocks_per_transfer := DEFAULT_BLOCKS, bflg := bflg l + 1\<rparr>,
                   fprintf_stderr w (Warn_blocks DEFAULT_BLOCKS) p1)
         else Inr (l\<lparr>blocks_per_transfer := v, bflg := bflg l + 1\<rparr>, p1))"
| "main_switch w (Opt_p optarg) l p =
     (let r = strtol optarg (errno p);
          v = int_of_long (conv_value r);
          p1 = p\<lparr>errno := conv_errno r\<rparr>
      in if conv_errno r \<noteq> 0 \<or> endstr r = 0 \<or> endstr r < length optarg \<or> v < 0 \<or> v > 99
         then Inr (l\<lparr>priority := - 1, pflg := pflg l + 1\<rparr>, fprintf_stderr w Warn_priority p1)
         else Inr (l\<lparr>priority := v, pflg := pflg l + 1\<rparr>, p1))"
| "main_switch w Opt_l l p = Inr (l\<lparr>lflg := lflg l + 1\<rparr>, p)"
| "main_switch w Opt_v l p = Inr (l\<lparr>vflg := vflg l + 1\<rparr>, p)"
| "main_switch w Opt_h l p = Inl (EXIT_SUCCESS, emit Print_help p)"
| "main_switch w Opt_unknown l p = Inr (l\<lparr>errflg := errflg l + 1\<rparr>, p)"

fun getopt_loop ::
    "world \<Rightarrow> getopt_result list \<Rightarrow> main_locals \<Rightarrow> proc \<Rightarrow>
       (int \<times> proc) + (main_locals \<times> proc)" where
  "getopt_loop w [] l p = Inr (l, p)"
| "getopt_loop w (opt # rest) l p =
     (case main_switch w opt l p of
        Inl e \<Rightarrow> Inl e
      | Inr (l', p') \<Rightarrow> getopt_loop w rest l' p')"

text \<open>
  The process starts with \<^verbatim>\<open>errno\<close> 0, no instances and an empty trace; \<^verbatim>\<open>main\<close>
  installs \<^verbatim>\<open>signal_handler\<close> for four signals before it reads the options.
\<close>

definition proc_init :: proc where
  "proc_init =
     \<lparr>errno = 0, debug_level = 0, handled = [], instance_count = 0, instances = [],
      trace = []\<rparr>"

definition main :: "world \<Rightarrow> getopt_result list \<Rightarrow> (fault + int) \<times> proc" where
  "main w argv =
     (let p0 = proc_init\<lparr>handled := [SIGHUP, SIGINT, SIGTERM, SIGUSR1]\<rparr>
      in case getopt_loop w argv main_locals_init p0 of
           Inl e \<Rightarrow> (Inr (fst e), snd e)
         | Inr (l, p) \<Rightarrow>
             if errflg l > 0 then (Inr EXIT_FAILURE, emit Print_help p)
             else
               (let p1 = (if vflg l \<noteq> 0 then p\<lparr>debug_level := vflg l\<rparr> else p)
                in if lflg l \<noteq> 0 then
                     (let ow_err = print_devices w;
                          p2 = emit Call_print_devices p1
                      in if ow_err \<noteq> 0
                         then (Inr EXIT_FAILURE, fprintf_stderr w (Stderr_usb_error ow_err) p2)
                         else (Inr EXIT_SUCCESS, p2))
                   else if bflg l > 1
                     then (Inr EXIT_FAILURE, fprintf_stderr w Stderr_undetermined_blocks p1)
                   else if pflg l > 1
                     then (Inr EXIT_FAILURE, fprintf_stderr w Stderr_undetermined_priority p1)
                   else if nflg l + dflg l = 0
                     then run_all w (blocks_per_transfer l) (quality l) (priority l) p1
                   else if nflg l + dflg l = 1
                     then run_single w (device_num l) (device_name l)
                            (blocks_per_transfer l) (quality l) (priority l) p1
                   else (Inr EXIT_FAILURE, fprintf_stderr w Stderr_device_not_provided p1)))"

subsection \<open>Observations on traces and command lines\<close>

text \<open>The threads created and the joins attempted, in order.\<close>

fun created :: "event list \<Rightarrow> nat list" where
  "created [] = []"
| "created (Pthread_create i # es) = i # created es"
| "created (e # es) = created es"

fun joined :: "event list \<Rightarrow> (nat \<times> pthread_t option) list" where
  "joined [] = []"
| "joined (Pthread_join i h # es) = (i, h) # joined es"
| "joined (e # es) = joined es"

text \<open>The events that reach the USB layer or a device, and the warnings of the option loop.\<close>

fun touches_device :: "event \<Rightarrow> bool" where
  "touches_device Call_print_devices = True"
| "touches_device Call_get_devices = True"
| "touches_device (Call_get_usb_device_from_device_attrs n d) = True"
| "touches_device (Call_jclient_init i) = True"
| "touches_device e = False"

fun is_warning :: "event \<Rightarrow> bool" where
  "is_warning (Warn_quality v) = True"
| "is_warning (Warn_blocks v) = True"
| "is_warning Warn_priority = True"
| "is_warning e = False"

text \<open>Whether \<^verbatim>\<open>jclient_init\<close> succeeds on the \<open>i\<close>-th enumerated device.\<close>

definition init_ok :: "world \<Rightarrow> int \<Rightarrow> int \<Rightarrow> int \<Rightarrow> ow_usb_device list \<Rightarrow> nat \<Rightarrow> bool" where
  "init_ok w b q pr devices i \<longleftrightarrow> jclient_init w (configure (devices ! i) b q pr) = 0"

text \<open>The state in which \<^verbatim>\<open>run_all\<close> reaches its join loop.\<close>

definition before_join :: "world \<Rightarrow> int \<Rightarrow> int \<Rightarrow> int \<Rightarrow> proc \<Rightarrow> proc" where
  "before_join w b q pr p =
     (let devices = snd (ow_get_devices w);
          p1 = emit Call_get_devices (p\<lparr>instance_count := length devices\<rparr>);
          p2 = p1\<lparr>instances := replicate (instance_count p1) malloc_instance\<rparr>
      in emit Free_usb_device_list (spawn_loop w b q pr devices 0 p2))"

text \<open>The option letter \<^verbatim>\<open>getopt_long\<close> returns, and how often one occurs.\<close>

fun opt_letter :: "getopt_result \<Rightarrow> char" where
  "opt_letter (Opt_n a) = CHR ''n''"
| "opt_letter (Opt_d a) = CHR ''d''"
| "opt_letter (Opt_q a) = CHR ''q''"
| "opt_letter (Opt_b a) = CHR ''b''"
| "opt_letter (Opt_p a) = CHR ''p''"
| "opt_letter Opt_l = CHR ''l''"
| "opt_letter Opt_v = CHR ''v''"
| "opt_letter Opt_h = CHR ''h''"
| "opt_letter Opt_unknown = CHR ''?''"

definition times_given :: "char \<Rightarrow> getopt_result list \<Rightarrow> nat" where
  "times_given c argv = count_list (map opt_letter argv) c"

text \<open>
  A bus with three devices, with a \<^verbatim>\<open>jclient_init\<close> that succeeds on all of them, that
  fails on the second, that fails on the second and the third; and an empty bus. All
  enumerate and list without error and have a stderr that can be written.
\<close>

definition three_devices :: "ow_usb_device list" where
  "three_devices =
     [\<lparr>name = ''Digitakt'', bus = 1, address = 2\<rparr>,
      \<lparr>name = ''Digitone'', bus = 1, address = 3\<rparr>,
      \<lparr>name = ''Analog Heat'', bus = 2, address = 4\<rparr>]"

definition healthy_world :: world where
  "healthy_world =
     \<lparr>ow_get_devices = (0, three_devices),
      ow_get_usb_device_from_device_attrs = device_from_attrs (0, three_devices),
      jclient_init = (\<lambda>jc. 0),
      print_devices = 0,
      fprintf_errno = (\<lambda>e. e)\<rparr>"

definition example_world :: world where
  "example_world =
     \<lparr>ow_get_devices = (0, three_devices),
      ow_get_usb_device_from_device_attrs = device_from_attrs (0, three_devices),
      jclient_init = (\<lambda>jc. if jclient_address jc = 3 then 1 else 0),
      print_devices = 0,
      fprintf_errno = (\<lambda>e. e)\<rparr>"


definition empty_world :: world where
  "empty_world =
     \<lparr>ow_get_devices = (0, []),
      ow_get_usb_device_from_device_attrs = device_from_attrs (0, []),
      jclient_init = (\<lambda>jc. 0),
      print_devices = 0,
      fprintf_errno = (\<lambda>e. e)\<rparr>"

section \<open>Properties\<close>

subsection \<open>Traces\<close>

lemma created_append: "created (xs @ ys) = created xs @ created ys"
  by (induction xs rule: created.induct) simp_all

lemma joined_append: "joined (xs @ ys) = joined xs @ joined ys"
  by (induction xs rule: joined.induct) simp_all

lemma emit_simps:
  "trace (emit e p) = trace p @ [e]"
  "instance_count (emit e p) = instance_count p"
  "instances (emit e p) = instances p"
  "errno (emit e p) = errno p"
  by (simp_all add: emit_def)

lemma fprintf_stderr_simps:
  "trace (fprintf_stderr w e p) = trace p @ [e]"
  "instance_count (fprintf_stderr w e p) = instance_count p"
  "instances (fprintf_stderr w e p) = instances p"
  by (simp_all add: fprintf_stderr_def emit_def)

declare exit_loop.simps [simp del] report_loop.simps [simp del]
  spawn_loop.simps [simp del] join_loop.simps [simp del]

subsection \<open>signal_handler\<close>

lemma exit_loop_trace:
  "trace (exit_loop i p) = trace p @ map Call_jclient_exit [i..<instance_count p]"
proof (induction i p rule: exit_loop.induct)
  case (1 i p)
  show ?case
  proof (cases "i < instance_count p")
    case True
    then show ?thesis
      using 1 by (subst exit_loop.simps) (simp add: emit_simps upt_conv_Cons)
  next
    case False
    then show ?thesis by (subst exit_loop.simps) simp
  qed
qed

lemma count_list_upt: "count_list [i..<n] k = (if i \<le> k \<and> k < n then 1 else 0)"
  by (induction n) auto

lemma count_exit_upt:
  "count_list (map Call_jclient_exit [i..<n]) (Call_jclient_exit k) =
     (if i \<le> k \<and> k < n then 1 else 0)"
  by (simp add: count_list_map_conv inj_def count_list_upt)

text \<open>
  C7. On SIGHUP, SIGINT or SIGTERM the handler calls \<^verbatim>\<open>jclient_exit\<close> on the entries
  \<open>0\<close>, ..., \<open>instance_count - 1\<close> in this order and does nothing else: every entry of
  the instance set gets exactly one stop request per delivery of the signal.
\<close>

theorem signal_handler_stops_every_entry:
  assumes "signo = SIGHUP \<or> signo = SIGINT \<or> signo = SIGTERM"
  shows "trace (signal_handler signo p) =
           trace p @ map Call_jclient_exit [0..<instance_count p] \<and>
         (\<forall>i < instance_count p.
            count_list (trace (signal_handler signo p)) (Call_jclient_exit i) =
              count_list (trace p) (Call_jclient_exit i) + 1)"
  using assms by (simp add: signal_handler_def exit_loop_trace count_exit_upt)

theorem signal_handler_stops_every_entry_witness:
  "(SIGTERM = SIGHUP \<or> SIGTERM = SIGINT \<or> SIGTERM = SIGTERM) \<and>
   trace (signal_handler SIGTERM (proc_init\<lparr>instance_count := 2\<rparr>)) =
     [Call_jclient_exit 0, Call_jclient_exit 1]"
  using signal_handler_stops_every_entry [of SIGTERM "proc_init\<lparr>instance_count := 2\<rparr>"]
  by (simp add: proc_init_def upt_conv_Cons)

subsection \<open>run_all\<close>

lemma spawn_loop_instance_count:
  "instance_count (spawn_loop w b q pr devices i p) = instance_count p"
proof (induction w b q pr devices i p rule: spawn_loop.induct)
  case (1 w b q pr devices i p)
  show ?case
  proof (cases "i < instance_count p")
    case True
    then show ?thesis
      using 1 by (subst spawn_loop.simps) (simp add: emit_simps Let_def)
  next
    case False
    then show ?thesis by (subst spawn_loop.simps) simp
  qed
qed

lemma spawn_loop_trace:
  "trace (spawn_loop w b q pr devices i p) =
     trace p @ concat (map (\<lambda>k. Call_jclient_init k #
                 (if init_ok w b q pr devices k then [Pthread_create k] else []))
               [i..<instance_count p])"
proof (induction w b q pr devices i p rule: spawn_loop.induct)
  case (1 w b q pr devices i p)
  show ?case
  proof (cases "i < instance_count p")
    case True
    then show ?thesis
      using 1 by (subst spawn_loop.simps) (simp add: emit_simps Let_def upt_conv_Cons init_ok_def)
  next
    case False
    then show ?thesis by (subst spawn_loop.simps) simp
  qed
qed

lemma spawn_loop_length:
  "length (instances (spawn_loop w b q pr devices i p)) = length (instances p)"
proof (induction w b q pr devices i p rule: spawn_loop.induct)
  case (1 w b q pr devices i p)
  show ?case
  proof (cases "i < instance_count p")
    case True
    then show ?thesis
      using 1 by (subst spawn_loop.simps) (simp add: emit_simps Let_def)
  next
    case False
    then show ?thesis by (subst spawn_loop.simps) simp
  qed
qed

lemma spawn_loop_thread:
  "k < length (instances p) \<Longrightarrow>
   thread (instances (spawn_loop w b q pr devices i p) ! k) =
     (if i \<le> k \<and> k < instance_count p \<and> init_ok w b q pr devices k then Some k
      else thread (instances p ! k))"
proof (induction w b q pr devices i p rule: spawn_loop.induct)
  case (1 w b q pr devices i p)
  let ?jc = "configure (devices ! i) b q pr"
  let ?p1 = "p\<lparr>instances := (instances p)[i := (instances p ! i)\<lparr>jclient := Some ?jc\<rparr>]\<rparr>"
  let ?p2 = "emit (Call_jclient_init i) ?p1"
  let ?p3 = "emit (Pthread_create i)
               (?p2\<lparr>instances := (instances ?p2)[i := (instances ?p2 ! i)\<lparr>thread := Some i\<rparr>]\<rparr>)"
  show ?case
  proof (cases "i < instance_count p")
    case False
    then show ?thesis by (subst spawn_loop.simps) auto
  next
    case True
    show ?thesis
    proof (cases "jclient_init w ?jc \<noteq> 0")
      case fails: True
      have step: "spawn_loop w b q pr devices i p = spawn_loop w b q pr devices (i + 1) ?p2"
        using True fails by (subst spawn_loop.simps) (simp add: Let_def)
      have len: "k < length (instances ?p2)"
        using "1.prems" by (simp add: emit_simps)
      have IH: "thread (instances (spawn_loop w b q pr devices (i + 1) ?p2) ! k) =
                  (if i + 1 \<le> k \<and> k < instance_count ?p2 \<and> init_ok w b q pr devices k
                   then Some k else thread (instances ?p2 ! k))"
        using "1.IH"(1) [OF True refl refl refl fails len] .
      have here: "thread (instances ?p2 ! k) = thread (instances p ! k)"
        using "1.prems" by (cases "k = i") (simp_all add: emit_simps)
      have "\<not> init_ok w b q pr devices i"
        using fails by (simp add: init_ok_def)
      then show ?thesis
        unfolding step IH here using True
        by (cases "k = i") (auto simp add: emit_simps)
    next
      case ok: False
      have step: "spawn_loop w b q pr devices i p = spawn_loop w b q pr devices (i + 1) ?p3"
        using True ok by (subst spawn_loop.simps) (simp add: Let_def)
      have len: "k < length (instances ?p3)"
        using "1.prems" by (simp add: emit_simps)
      have IH: "thread (instances (spawn_loop w b q pr devices (i + 1) ?p3) ! k) =
                  (if i + 1 \<le> k \<and> k < instance_count ?p3 \<and> init_ok w b q pr devices k
                   then Some k else thread (instances ?p3 ! k))"
        using "1.IH"(2) [OF True refl refl refl ok len] .
      have here: "thread (instances ?p3 ! k) = (if k = i then Some i else thread (instances p ! k))"
        using "1.prems" by (cases "k = i") (simp_all add: emit_simps)
      have "init_ok w b q pr devices i"
        using ok by (simp add: init_ok_def)
      then show ?thesis
        unfolding step IH here using True
        by (cases "k = i") (auto simp add: emit_simps)
    qed
  qed
qed

lemma created_spawn_events:
  "created (concat (map (\<lambda>k. Call_jclient_init k # (if P k then [Pthread_create k] else [])) ks)) =
     filter P ks"
  by (induction ks) simp_all

lemma joined_spawn_events:
  "joined (concat (map (\<lambda>k. Call_jclient_init k # (if P k then [Pthread_create k] else [])) ks)) = []"
  by (induction ks) simp_all

lemma created_join_events: "created (map (\<lambda>k. Pthread_join k (h k)) ks) = []"
  by (induction ks) simp_all

lemma joined_join_events: "joined (map (\<lambda>k. Pthread_join k (h k)) ks) = map (\<lambda>k. (k, h k)) ks"
  by (induction ks) simp_all

lemma join_loop_created: "created (trace (snd (join_loop i p))) = created (trace p)"
proof (induction i p rule: join_loop.induct)
  case (1 i p)
  show ?case
  proof (cases "i < instance_count p")
    case False
    then show ?thesis by (subst join_loop.simps) simp
  next
    case True
    show ?thesis
    proof (cases "thread (instances p ! i)")
      case None
      with True show ?thesis
        by (subst join_loop.simps) (simp add: Let_def emit_simps created_append)
    next
      case (Some h)
      with True "1.IH" [OF True refl Some] show ?thesis
        by (subst join_loop.simps) (simp add: Let_def emit_simps created_append)
    qed
  qed
qed

lemma join_loop_all_written:
  "\<forall>j. i \<le> j \<and> j < instance_count p \<longrightarrow> thread (instances p ! j) \<noteq> None \<Longrightarrow>
   fst (join_loop i p) = None \<and>
   trace (snd (join_loop i p)) =
     trace p @ map (\<lambda>j. Pthread_join j (thread (instances p ! j))) [i..<instance_count p]"
proof (induction i p rule: join_loop.induct)
  case (1 i p)
  show ?case
  proof (cases "i < instance_count p")
    case False
    then show ?thesis by (subst (1 2) join_loop.simps) simp
  next
    case True
    with "1.prems" obtain h where h: "thread (instances p ! i) = Some h" by auto
    have "\<forall>j. i + 1 \<le> j \<and> j < instance_count (emit (Pthread_join i (thread (instances p ! i))) p)
            \<longrightarrow> thread (instances (emit (Pthread_join i (thread (instances p ! i))) p) ! j) \<noteq> None"
      using "1.prems" by (simp add: emit_simps)
    from "1.IH" [OF True refl h this] True h show ?thesis
      by (subst (1 2) join_loop.simps) (simp add: Let_def emit_simps upt_conv_Cons)
  qed
qed


lemma before_join_trace:
  "trace (before_join w b q pr p) =
     trace p @ [Call_get_devices] @
     concat (map (\<lambda>k. Call_jclient_init k #
                 (if init_ok w b q pr (snd (ow_get_devices w)) k then [Pthread_create k] else []))
               [0..<length (snd (ow_get_devices w))]) @
     [Free_usb_device_list]"
  by (simp add: before_join_def Let_def emit_simps spawn_loop_trace)

lemma before_join_count:
  "instance_count (before_join w b q pr p) = length (snd (ow_get_devices w))"
  by (simp add: before_join_def Let_def emit_simps spawn_loop_instance_count)

lemma before_join_thread:
  "k < length (snd (ow_get_devices w)) \<Longrightarrow>
   thread (instances (before_join w b q pr p) ! k) =
     (if init_ok w b q pr (snd (ow_get_devices w)) k then Some k else None)"
  by (simp add: before_join_def Let_def emit_simps spawn_loop_thread spawn_loop_instance_count
      malloc_instance_def)

lemma run_all_unfold:
  "fst (ow_get_devices w) = 0 \<Longrightarrow>
   run_all w b q pr p =
     (case fst (join_loop 0 (before_join w b q pr p)) of
        Some f \<Rightarrow> (Inl f, snd (join_loop 0 (before_join w b q pr p)))
      | None \<Rightarrow> (Inr OW_OK, emit Free_instances (snd (join_loop 0 (before_join w b q pr p)))))"
  by (simp add: run_all_def before_join_def Let_def split: option.splits)

lemma run_all_created:
  assumes "fst (ow_get_devices w) = 0"
  shows "created (trace (snd (run_all w b q pr p))) =
           created (trace p) @
           filter (init_ok w b q pr (snd (ow_get_devices w)))
             [0..<length (snd (ow_get_devices w))]"
  unfolding run_all_unfold [OF assms]
  by (simp add: emit_simps created_append join_loop_created before_join_trace
      created_spawn_events split: option.splits)

lemma run_all_all_ok:
  assumes "fst (ow_get_devices w) = 0"
    and "\<forall>i < length (snd (ow_get_devices w)). init_ok w b q pr (snd (ow_get_devices w)) i"
  shows "fst (run_all w b q pr p) = Inr OW_OK \<and>
         joined (trace (snd (run_all w b q pr p))) =
           joined (trace p) @ map (\<lambda>i. (i, Some i)) [0..<length (snd (ow_get_devices w))]"
proof -
  let ?p4 = "before_join w b q pr p"
  have "\<forall>j. 0 \<le> j \<and> j < instance_count ?p4 \<longrightarrow> thread (instances ?p4 ! j) \<noteq> None"
    using assms(2) by (simp add: before_join_count before_join_thread)
  from join_loop_all_written [OF this]
  have r: "fst (join_loop 0 ?p4) = None"
    and t: "trace (snd (join_loop 0 ?p4)) =
      trace ?p4 @ map (\<lambda>j. Pthread_join j (thread (instances ?p4 ! j))) [0..<instance_count ?p4]"
    by simp_all
  have m: "map (\<lambda>j. Pthread_join j (thread (instances ?p4 ! j))) [0..<instance_count ?p4] =
           map (\<lambda>j. Pthread_join j (Some j)) [0..<length (snd (ow_get_devices w))]"
    using assms(2) by (simp add: before_join_count before_join_thread)
  show ?thesis
    unfolding run_all_unfold [OF assms(1)]
    by (simp add: r t m emit_simps joined_append before_join_trace joined_spawn_events
        joined_join_events)
qed

text \<open>
  C1. The claim gives the status \<^verbatim>\<open>OW_OK\<close> to a fleet run whatever the number of failed
  initializations. On three devices with a \<^verbatim>\<open>jclient_init\<close> that fails on the second,
  \<^verbatim>\<open>run_all\<close> creates the threads of the first and the third device and skips the
  second, as the claim says; but its join loop then calls \<^verbatim>\<open>pthread_join\<close> on the
  handle of the second entry, which was never written. The run ends in this fault, with
  no status, in \<^verbatim>\<open>run_all\<close> and so in \<^verbatim>\<open>main\<close> without a selection flag.
  (\<open>run_all_created\<close> has the threads for every world, \<open>run_all_all_ok\<close> the status
  \<^verbatim>\<open>OW_OK\<close> when no initialization fails.)
\<close>

theorem run_all_faults_after_skipped_device:
  "fst (ow_get_devices example_world) = 0 \<and>
   created (trace (snd (run_all example_world 24 2 (- 1) proc_init))) = [0, 2] \<and>
   joined (trace (snd (run_all example_world 24 2 (- 1) proc_init))) = [(0, Some 0), (1, None)] \<and>
   fst (run_all example_world 24 2 (- 1) proc_init) = Inl (Join_unwritten_handle 1) \<and>
   fst (main example_world []) = Inl (Join_unwritten_handle 1)"
  by code_simp




subsection \<open>run_single\<close>

text \<open>
  C5. When the device is resolved and \<^verbatim>\<open>jclient_init\<close> fails, \<^verbatim>\<open>run_single\<close>
  returns \<^verbatim>\<open>OW_GENERIC_ERROR\<close>, which is not zero, right after the failed call: it
  frees the instance and creates no thread.
\<close>

theorem run_single_init_failure:
  assumes "ow_get_usb_device_from_device_attrs w num nm = Some device"
    and "jclient_init w (configure device b q pr) \<noteq> 0"
  shows "fst (run_single w num nm b q pr p) = Inr OW_GENERIC_ERROR \<and>
         OW_GENERIC_ERROR \<noteq> 0 \<and>
         trace (snd (run_single w num nm b q pr p)) =
           trace p @ [Call_get_usb_device_from_device_attrs num nm, Free_device,
                      Call_jclient_init 0, Free_instances] \<and>
         created (trace (snd (run_single w num nm b q pr p))) = created (trace p)"
  using assms
  by (simp add: run_single_def Let_def emit_simps created_append OW_GENERIC_ERROR_def)

theorem run_single_init_failure_witness:
  "ow_get_usb_device_from_device_attrs example_world 1 None =
     Some \<lparr>name = ''Digitone'', bus = 1, address = 3\<rparr> \<and>
   jclient_init example_world
     (configure \<lparr>name = ''Digitone'', bus = 1, address = 3\<rparr> 24 2 (- 1)) \<noteq> 0 \<and>
   fst (run_single example_world 1 None 24 2 (- 1) proc_init) = Inr OW_GENERIC_ERROR \<and>
   created (trace (snd (run_single example_world 1 None 24 2 (- 1) proc_init))) = []"
proof -
  have h1: "ow_get_usb_device_from_device_attrs example_world 1 None =
      Some \<lparr>name = ''Digitone'', bus = 1, address = 3\<rparr>"
    by (simp add: example_world_def device_from_attrs_def three_devices_def)
  have h2: "jclient_init example_world
      (configure \<lparr>name = ''Digitone'', bus = 1, address = 3\<rparr> 24 2 (- 1)) \<noteq> 0"
    by (simp add: example_world_def configure_def)
  show ?thesis
    using h1 h2 run_single_init_failure [OF h1 h2, of proc_init]
    by (simp add: proc_init_def)
qed

text \<open>
  With the device resolution the spec describes (\<open>device_from_attrs\<close>), selection by index
  (no name) and a \<^verbatim>\<open>device_num\<close> that is negative or not below the number of
  enumerated devices: the resolution fails, \<^verbatim>\<open>run_single\<close> returns
  \<^verbatim>\<open>OW_GENERIC_ERROR\<close> and does nothing after the failed resolution.
\<close>

lemma run_single_index_out_of_range:
  assumes "ow_get_usb_device_from_device_attrs w = device_from_attrs (ow_get_devices w)"
    and "num < 0 \<or> int (length (snd (ow_get_devices w))) \<le> num"
  shows "ow_get_usb_device_from_device_attrs w num None = None \<and>
         fst (run_single w num None b q pr p) = Inr OW_GENERIC_ERROR \<and>
         OW_GENERIC_ERROR \<noteq> 0 \<and>
         trace (snd (run_single w num None b q pr p)) =
           trace p @ [Call_get_usb_device_from_device_attrs num None] \<and>
         created (trace (snd (run_single w num None b q pr p))) = created (trace p)"
proof -
  have "ow_get_usb_device_from_device_attrs w num None = None"
    using assms by (auto simp add: device_from_attrs_def)
  then show ?thesis
    by (simp add: run_single_def Let_def emit_simps created_append OW_GENERIC_ERROR_def)
qed

subsection \<open>The option loop\<close>

lemma warnings_quiet:
  "list_all is_warning ws \<Longrightarrow> filter touches_device ws = [] \<and> created ws = [] \<and> joined ws = []"
proof (induction ws)
  case Nil
  then show ?case by simp
next
  case (Cons e ws)
  then show ?case by (cases e) simp_all
qed

lemma times_given_Cons:
  "times_given c (opt # argv) = (if opt_letter opt = c then 1 else 0) + times_given c argv"
  by (simp add: times_given_def)

lemma times_given_Nil: "times_given c [] = 0"
  by (simp add: times_given_def)

lemma main_switch_Inl:
  "main_switch w opt l p = Inl e \<Longrightarrow> opt = Opt_h \<and> e = (EXIT_SUCCESS, emit Print_help p)"
  by (cases opt) (auto simp add: Let_def split: if_splits)

lemma main_switch_Inr_trace:
  "main_switch w opt l p = Inr (l', p') \<Longrightarrow> \<exists>ws. trace p' = trace p @ ws \<and> list_all is_warning ws"
  by (cases opt) (auto simp add: Let_def emit_def fprintf_stderr_def split: if_splits)

lemma main_switch_Inr_flags:
  assumes "main_switch w opt l p = Inr (l', p')"
  shows "nflg l' = nflg l + (if opt_letter opt = CHR ''n'' then 1 else 0)"
    and "dflg l' = dflg l + (if opt_letter opt = CHR ''d'' then 1 else 0)"
    and "bflg l' = bflg l + (if opt_letter opt = CHR ''b'' then 1 else 0)"
    and "pflg l' = pflg l + (if opt_letter opt = CHR ''p'' then 1 else 0)"
    and "lflg l' = lflg l + (if opt_letter opt = CHR ''l'' then 1 else 0)"
    and "errflg l' = errflg l + (if opt_letter opt = CHR ''?'' then 1 else 0)"
  using assms by (cases opt; auto simp add: Let_def split: if_splits)+

lemma main_switch_not_help:
  "opt \<noteq> Opt_h \<Longrightarrow> \<exists>l' p'. main_switch w opt l p = Inr (l', p')"
  by (cases opt) (auto simp add: Let_def)

lemma getopt_loop_Inr:
  "getopt_loop w argv l p = Inr (l', p') \<Longrightarrow>
     (\<exists>ws. trace p' = trace p @ ws \<and> list_all is_warning ws) \<and>
     nflg l' = nflg l + int (times_given CHR ''n'' argv) \<and>
     dflg l' = dflg l + int (times_given CHR ''d'' argv) \<and>
     bflg l' = bflg l + int (times_given CHR ''b'' argv) \<and>
     pflg l' = pflg l + int (times_given CHR ''p'' argv) \<and>
     lflg l' = lflg l + int (times_given CHR ''l'' argv) \<and>
     errflg l' = errflg l + int (times_given CHR ''?'' argv)"
proof (induction argv arbitrary: l p)
  case Nil
  then show ?case by (simp add: times_given_Nil)
next
  case (Cons opt argv)
  from Cons.prems obtain l1 p1 where
    step: "main_switch w opt l p = Inr (l1, p1)" and rest: "getopt_loop w argv l1 p1 = Inr (l', p')"
    by (auto split: sum.splits)
  from main_switch_Inr_trace [OF step] obtain ws1 where
    ws1: "trace p1 = trace p @ ws1" "list_all is_warning ws1" by blast
  from Cons.IH [OF rest] obtain ws2 where
    ws2: "trace p' = trace p1 @ ws2" "list_all is_warning ws2" by blast
  have "trace p' = trace p @ (ws1 @ ws2) \<and> list_all is_warning (ws1 @ ws2)"
    using ws1 ws2 by simp
  then have tr: "\<exists>ws. trace p' = trace p @ ws \<and> list_all is_warning ws" by blast
  show ?case
    using tr Cons.IH [OF rest] main_switch_Inr_flags [OF step]
    by (simp add: times_given_Cons)
qed

lemma getopt_loop_no_help:
  "times_given CHR ''h'' argv = 0 \<Longrightarrow> \<exists>l' p'. getopt_loop w argv l p = Inr (l', p')"
proof (induction argv arbitrary: l p)
  case Nil
  then show ?case by simp
next
  case (Cons opt argv)
  from Cons.prems have "opt \<noteq> Opt_h" and rest: "times_given CHR ''h'' argv = 0"
    by (auto simp add: times_given_Cons split: if_splits)
  then obtain l1 p1 where step: "main_switch w opt l p = Inr (l1, p1)"
    using main_switch_not_help by blast
  with Cons.IH [OF rest, of l1 p1] show ?case by simp
qed


lemma warnings_filtered:
  "list_all is_warning ws \<Longrightarrow> filter (\<lambda>e. \<not> is_warning e) ws = []"
  by (induction ws) simp_all

lemma options_read:
  assumes "times_given CHR ''h'' argv = 0"
  obtains l p where
    "getopt_loop w argv main_locals_init
       (proc_init\<lparr>handled := [SIGHUP, SIGINT, SIGTERM, SIGUSR1]\<rparr>) = Inr (l, p)"
    "list_all is_warning (trace p)"
    "nflg l = int (times_given CHR ''n'' argv)"
    "dflg l = int (times_given CHR ''d'' argv)"
    "bflg l = int (times_given CHR ''b'' argv)"
    "pflg l = int (times_given CHR ''p'' argv)"
    "lflg l = int (times_given CHR ''l'' argv)"
    "errflg l = int (times_given CHR ''?'' argv)"
proof -
  let ?p0 = "proc_init\<lparr>handled := [SIGHUP, SIGINT, SIGTERM, SIGUSR1]\<rparr>"
  from getopt_loop_no_help [OF assms] obtain l p where
    loop: "getopt_loop w argv main_locals_init ?p0 = Inr (l, p)" by blast
  have "trace ?p0 = []" by (simp add: proc_init_def)
  with getopt_loop_Inr [OF loop] have "list_all is_warning (trace p)" by auto
  with loop getopt_loop_Inr [OF loop] that show thesis
    by (simp add: main_locals_init_def)
qed

lemma main_aborts_quietly:
  assumes "times_given CHR ''h'' argv = 0" and "times_given CHR ''l'' argv = 0"
    and "1 < times_given CHR ''b'' argv \<or> 1 < times_given CHR ''p'' argv \<or>
         (0 < times_given CHR ''n'' argv \<and> 0 < times_given CHR ''d'' argv)"
  shows "fst (main w argv) = Inr EXIT_FAILURE \<and>
         filter touches_device (trace (snd (main w argv))) = [] \<and>
         created (trace (snd (main w argv))) = []"
proof -
  from options_read [OF assms(1)] obtain l p where
    loop: "getopt_loop w argv main_locals_init
       (proc_init\<lparr>handled := [SIGHUP, SIGINT, SIGTERM, SIGUSR1]\<rparr>) = Inr (l, p)"
    and ws: "list_all is_warning (trace p)"
    and flags: "nflg l = int (times_given CHR ''n'' argv)"
      "dflg l = int (times_given CHR ''d'' argv)"
      "bflg l = int (times_given CHR ''b'' argv)"
      "pflg l = int (times_given CHR ''p'' argv)"
      "lflg l = int (times_given CHR ''l'' argv)"
    by blast
  have quiet: "filter touches_device (trace p) = []" "created (trace p) = []"
    using warnings_quiet [OF ws] by simp_all
  have "lflg l = 0" using flags assms(2) by simp
  moreover have "1 < bflg l \<or> 1 < pflg l \<or> (nflg l + dflg l \<noteq> 0 \<and> nflg l + dflg l \<noteq> 1)"
    using flags assms(3) by auto
  ultimately show ?thesis
    using loop quiet by (auto simp add: main_def Let_def emit_def fprintf_stderr_def created_append)
qed

lemma main_lists_devices:
  assumes "times_given CHR ''h'' argv = 0" and "times_given CHR ''?'' argv = 0"
    and "0 < times_given CHR ''l'' argv"
  shows "fst (main w argv) = Inr (if print_devices w = 0 then EXIT_SUCCESS else EXIT_FAILURE) \<and>
         filter (\<lambda>e. \<not> is_warning e) (trace (snd (main w argv))) =
           (if print_devices w = 0 then [Call_print_devices]
            else [Call_print_devices, Stderr_usb_error (print_devices w)]) \<and>
         created (trace (snd (main w argv))) = []"
proof -
  from options_read [OF assms(1)] obtain l p where
    loop: "getopt_loop w argv main_locals_init
       (proc_init\<lparr>handled := [SIGHUP, SIGINT, SIGTERM, SIGUSR1]\<rparr>) = Inr (l, p)"
    and ws: "list_all is_warning (trace p)"
    and flags: "lflg l = int (times_given CHR ''l'' argv)"
      "errflg l = int (times_given CHR ''?'' argv)"
    by blast
  have quiet: "filter (\<lambda>e. \<not> is_warning e) (trace p) = []" "created (trace p) = []"
    using warnings_quiet [OF ws] warnings_filtered [OF ws] by simp_all
  have "errflg l = 0" "lflg l \<noteq> 0" using flags assms by simp_all
  then show ?thesis
    using loop quiet by (auto simp add: main_def Let_def emit_def fprintf_stderr_def created_append)
qed

text \<open>
  When no help is asked for, no option is unknown and nothing is to be listed or
  rejected, \<^verbatim>\<open>main\<close> is \<^verbatim>\<open>run_all\<close> without a selection flag and \<^verbatim>\<open>run_single\<close>
  with exactly one.
\<close>

lemma main_runs_orchestrator:
  assumes "times_given CHR ''h'' argv = 0" and "times_given CHR ''?'' argv = 0"
    and "times_given CHR ''l'' argv = 0"
    and "times_given CHR ''b'' argv \<le> 1" and "times_given CHR ''p'' argv \<le> 1"
  shows "\<exists>l p p1. getopt_loop w argv main_locals_init
             (proc_init\<lparr>handled := [SIGHUP, SIGINT, SIGTERM, SIGUSR1]\<rparr>) = Inr (l, p) \<and>
           p1 = (if vflg l \<noteq> 0 then p\<lparr>debug_level := vflg l\<rparr> else p) \<and>
           (times_given CHR ''n'' argv + times_given CHR ''d'' argv = 0 \<longrightarrow>
              main w argv = run_all w (blocks_per_transfer l) (quality l) (priority l) p1) \<and>
           (times_given CHR ''n'' argv + times_given CHR ''d'' argv = 1 \<longrightarrow>
              main w argv = run_single w (device_num l) (device_name l)
                              (blocks_per_transfer l) (quality l) (priority l) p1)"
proof -
  from options_read [OF assms(1)] obtain l p where
    loop: "getopt_loop w argv main_locals_init
       (proc_init\<lparr>handled := [SIGHUP, SIGINT, SIGTERM, SIGUSR1]\<rparr>) = Inr (l, p)"
    and flags: "nflg l = int (times_given CHR ''n'' argv)"
      "dflg l = int (times_given CHR ''d'' argv)"
      "bflg l = int (times_given CHR ''b'' argv)"
      "pflg l = int (times_given CHR ''p'' argv)"
      "lflg l = int (times_given CHR ''l'' argv)"
      "errflg l = int (times_given CHR ''?'' argv)"
    by blast
  have "errflg l = 0" "lflg l = 0" "\<not> 1 < bflg l" "\<not> 1 < pflg l"
    using flags assms by simp_all
  moreover have "nflg l + dflg l = int (times_given CHR ''n'' argv + times_given CHR ''d'' argv)"
    using flags by simp
  ultimately show ?thesis
    using loop by (auto simp add: main_def Let_def)
qed

subsection \<open>Validation of the numeric options\<close>

lemma int_of_long_fits:
  "- 2147483648 \<le> x \<Longrightarrow> x < 2147483648 \<Longrightarrow> int_of_long x = x"
  by (simp add: int_of_long_def)

text \<open>
  What the three validators do with a value that \<^verbatim>\<open>int\<close> can hold: a conversion error,
  an argument without digits, trailing characters or a value outside the closed range
  give the default and a warning, and the loop goes on (\<open>Inr\<close>).
\<close>

lemma quality_rejected:
  assumes "r = strtol optarg (errno p)"
    and "- 2147483648 \<le> conv_value r" and "conv_value r < 2147483648"
    and "conv_errno r \<noteq> 0 \<or> endstr r = 0 \<or> endstr r < length optarg \<or>
         conv_value r < 0 \<or> 4 < conv_value r"
  shows "main_switch w (Opt_q optarg) l p =
           Inr (l\<lparr>quality := 2\<rparr>,
                fprintf_stderr w (Warn_quality 2) (p\<lparr>errno := conv_errno r\<rparr>))"
proof -
  have v: "int_of_long (conv_value r) = conv_value r"
    using assms(2) assms(3) by (rule int_of_long_fits)
  have r: "strtol optarg (errno p) = r"
    using assms(1) by simp
  show ?thesis
    using assms(4) by (auto simp add: Let_def v r DEFAULT_QUALITY_def)
qed

lemma blocks_rejected:
  assumes "r = strtol optarg (errno p)"
    and "- 2147483648 \<le> conv_value r" and "conv_value r < 2147483648"
    and "conv_errno r \<noteq> 0 \<or> endstr r = 0 \<or> endstr r < length optarg \<or>
         conv_value r < 2 \<or> 32 < conv_value r"
  shows "main_switch w (Opt_b optarg) l p =
           Inr (l\<lparr>blocks_per_transfer := 24, bflg := bflg l + 1\<rparr>,
                fprintf_stderr w (Warn_blocks 24) (p\<lparr>errno := conv_errno r\<rparr>))"
proof -
  have v: "int_of_long (conv_value r) = conv_value r"
    using assms(2) assms(3) by (rule int_of_long_fits)
  have r: "strtol optarg (errno p) = r"
    using assms(1) by simp
  show ?thesis
    using assms(4) by (auto simp add: Let_def v r DEFAULT_BLOCKS_def)
qed

lemma priority_rejected:
  assumes "r = strtol optarg (errno p)"
    and "- 2147483648 \<le> conv_value r" and "conv_value r < 2147483648"
    and "conv_errno r \<noteq> 0 \<or> endstr r = 0 \<or> endstr r < length optarg \<or>
         conv_value r < 0 \<or> 99 < conv_value r"
  shows "main_switch w (Opt_p optarg) l p =
           Inr (l\<lparr>priority := - 1, pflg := pflg l + 1\<rparr>,
                fprintf_stderr w Warn_priority (p\<lparr>errno := conv_errno r\<rparr>))"
proof -
  have v: "int_of_long (conv_value r) = conv_value r"
    using assms(2) assms(3) by (rule int_of_long_fits)
  have r: "strtol optarg (errno p) = r"
    using assms(1) by simp
  show ?thesis
    using assms(4) by (auto simp add: Let_def v r)
qed

text \<open>
  When the \<^verbatim>\<open>fprintf\<close> of a warning fails (a closed stderr, \<^verbatim>\<open>EBADF\<close> is 9), the
  \<^verbatim>\<open>errno\<close> it leaves makes the validator of the next numeric option reject a good
  value.
\<close>

lemma failed_warning_rejects_next_option:
  "map (map_option jclient_blocks_per_transfer \<circ> jclient)
     (instances (snd (main (healthy_world\<lparr>fprintf_errno := (\<lambda>e. 9)\<rparr>)
                        [Opt_q ''9'', Opt_b ''4'']))) = [Some 24, Some 24, Some 24] \<and>
   map (map_option jclient_blocks_per_transfer \<circ> jclient)
     (instances (snd (main healthy_world [Opt_q ''9'', Opt_b ''4'']))) =
     [Some 4, Some 4, Some 4]"
  by code_simp

text \<open>
  C2. The block count \<^verbatim>\<open>4294967298\<close> (\<open>2 ^ 32 + 2\<close>) is outside 2..32. \<^verbatim>\<open>strtol\<close>
  converts it without error, the conversion to \<^verbatim>\<open>int\<close> leaves 2, and the range test
  of \<^verbatim>\<open>main\<close> reads the converted value: no warning is written, the default 24 is not
  substituted, and every worker is configured with 2 blocks per transfer.
\<close>

theorem blocks_value_wraps_into_range:
  "conv_value (strtol ''4294967298'' 0) = 4294967298 \<and>
   conv_errno (strtol ''4294967298'' 0) = 0 \<and>
   main_switch example_world (Opt_b ''4294967298'') main_locals_init proc_init =
     Inr (main_locals_init\<lparr>blocks_per_transfer := 2, bflg := 1\<rparr>, proc_init) \<and>
   filter is_warning (trace (snd (main example_world [Opt_b ''4294967298'']))) = [] \<and>
   map (map_option jclient_blocks_per_transfer \<circ> jclient)
     (instances (snd (main example_world [Opt_b ''4294967298'']))) = [Some 2, Some 2, Some 2] \<and>
   fst (main healthy_world [Opt_b ''4294967298'']) = Inr 0 \<and>
   created (trace (snd (main healthy_world [Opt_b ''4294967298'']))) = [0, 1, 2]"
  by code_simp

text \<open>
  C8. The index \<^verbatim>\<open>4294967296\<close> (\<open>2 ^ 32\<close>) is out of range on a bus with three
  devices. \<^verbatim>\<open>main\<close> converts the argument of the index option with
  \<^verbatim>\<open>(int) strtol (...)\<close> and tests nothing: \<^verbatim>\<open>device_num\<close> is 0, the resolution
  (as the spec describes it) finds the first device, its thread is created and joined
  and the status is 0, where the claim has a failed run and no thread.
  (\<open>run_single_index_out_of_range\<close> has the failure for every \<^verbatim>\<open>device_num\<close> that
  is out of range when \<^verbatim>\<open>run_single\<close> receives it.)
\<close>

theorem device_index_wraps_into_range:
  "conv_value (strtol ''4294967296'' 0) = 4294967296 \<and>
   conv_errno (strtol ''4294967296'' 0) = 0 \<and>
   int (length (snd (ow_get_devices example_world))) \<le> 4294967296 \<and>
   main_switch example_world (Opt_n ''4294967296'') main_locals_init proc_init =
     Inr (main_locals_init\<lparr>device_num := 0, nflg := 1\<rparr>, proc_init) \<and>
   fst (main example_world [Opt_n ''4294967296'']) = Inr 0 \<and>
   trace (snd (main example_world [Opt_n ''4294967296''])) =
     [Call_get_usb_device_from_device_attrs 0 None, Free_device, Call_jclient_init 0,
      Pthread_create 0, Pthread_join 0 (Some 0), Free_instances]"
  by code_simp

subsection \<open>Order of the checks in main\<close>

text \<open>
  C3, as the claim states it, fails: with the list-devices flag the devices are listed and
  the status is 0 although the block count is given twice; with the help flag the status is
  0 although the priority is given twice; and a quality given twice is not counted at all,
  the last value is used and the workers start.
\<close>

theorem repeated_option_not_always_fatal:
  "fst (main example_world [Opt_b ''2'', Opt_b ''3'', Opt_l]) = Inr 0 \<and>
   trace (snd (main example_world [Opt_b ''2'', Opt_b ''3'', Opt_l])) = [Call_print_devices] \<and>
   fst (main example_world [Opt_p ''1'', Opt_p ''2'', Opt_h]) = Inr 0 \<and>
   fst (main healthy_world [Opt_q ''1'', Opt_q ''3'']) = Inr 0 \<and>
   created (trace (snd (main healthy_world [Opt_q ''1'', Opt_q ''3'']))) = [0, 1, 2] \<and>
   created (trace (snd (main example_world [Opt_q ''1'', Opt_q ''3'']))) = [0, 2]"
  by code_simp

text \<open>
  C3, amended. On a command line without the help flag and without the list-devices flag,
  a block count or a priority given more than once makes \<^verbatim>\<open>main\<close> exit with
  \<^verbatim>\<open>EXIT_FAILURE\<close>, which is not zero, before any call that reaches a device and
  before any thread is created.
\<close>

theorem repeated_blocks_or_priority_aborts:
  assumes "times_given CHR ''h'' argv = 0" and "times_given CHR ''l'' argv = 0"
    and "1 < times_given CHR ''b'' argv \<or> 1 < times_given CHR ''p'' argv"
  shows "fst (main w argv) = Inr EXIT_FAILURE \<and> EXIT_FAILURE \<noteq> 0 \<and>
         filter touches_device (trace (snd (main w argv))) = [] \<and>
         created (trace (snd (main w argv))) = []"
proof -
  have "fst (main w argv) = Inr EXIT_FAILURE \<and>
        filter touches_device (trace (snd (main w argv))) = [] \<and>
        created (trace (snd (main w argv))) = []"
    using assms(3) by (intro main_aborts_quietly [OF assms(1) assms(2)]) blast
  then show ?thesis by (simp add: EXIT_FAILURE_def)
qed

theorem repeated_blocks_or_priority_aborts_witness:
  "times_given CHR ''h'' [Opt_b ''2'', Opt_b ''3''] = 0 \<and>
   times_given CHR ''l'' [Opt_b ''2'', Opt_b ''3''] = 0 \<and>
   (1 < times_given CHR ''b'' [Opt_b ''2'', Opt_b ''3''] \<or>
    1 < times_given CHR ''p'' [Opt_b ''2'', Opt_b ''3'']) \<and>
   fst (main example_world [Opt_b ''2'', Opt_b ''3'']) = Inr EXIT_FAILURE \<and>
   created (trace (snd (main example_world [Opt_b ''2'', Opt_b ''3'']))) = []"
proof -
  have h1: "times_given CHR ''h'' [Opt_b ''2'', Opt_b ''3''] = 0"
    and h2: "times_given CHR ''l'' [Opt_b ''2'', Opt_b ''3''] = 0"
    and h3: "1 < times_given CHR ''b'' [Opt_b ''2'', Opt_b ''3''] \<or>
             1 < times_given CHR ''p'' [Opt_b ''2'', Opt_b ''3'']"
    by (simp_all add: times_given_def)
  show ?thesis
    using h1 h2 h3 repeated_blocks_or_priority_aborts [OF h1 h2 h3, of example_world]
    by simp
qed

text \<open>
  C4, as the claim states it, fails: with the list-devices flag the devices are listed
  (the USB layer is reached) and the status is 0 although both an index and a name are
  given; with the help flag the status is 0.
\<close>

theorem index_and_name_not_always_rejected:
  "fst (main example_world [Opt_n ''0'', Opt_d ''Digitakt'', Opt_l]) = Inr 0 \<and>
   filter touches_device
     (trace (snd (main example_world [Opt_n ''0'', Opt_d ''Digitakt'', Opt_l]))) =
     [Call_print_devices] \<and>
   fst (main example_world [Opt_n ''0'', Opt_d ''Digitakt'', Opt_h]) = Inr 0"
  by code_simp

text \<open>
  C4, amended. On a command line without the help flag and without the list-devices flag,
  giving both an index and a name makes \<^verbatim>\<open>main\<close> exit with \<^verbatim>\<open>EXIT_FAILURE\<close>, which
  is not zero, before any call that reaches a device; no thread is created.
\<close>

theorem index_and_name_rejected:
  assumes "times_given CHR ''h'' argv = 0" and "times_given CHR ''l'' argv = 0"
    and "0 < times_given CHR ''n'' argv" and "0 < times_given CHR ''d'' argv"
  shows "fst (main w argv) = Inr EXIT_FAILURE \<and> EXIT_FAILURE \<noteq> 0 \<and>
         filter touches_device (trace (snd (main w argv))) = [] \<and>
         created (trace (snd (main w argv))) = []"
proof -
  have "fst (main w argv) = Inr EXIT_FAILURE \<and>
        filter touches_device (trace (snd (main w argv))) = [] \<and>
        created (trace (snd (main w argv))) = []"
    using assms(3) assms(4) by (intro main_aborts_quietly [OF assms(1) assms(2)]) blast
  then show ?thesis by (simp add: EXIT_FAILURE_def)
qed

theorem index_and_name_rejected_witness:
  "times_given CHR ''h'' [Opt_n ''0'', Opt_d ''Digitakt''] = 0 \<and>
   times_given CHR ''l'' [Opt_n ''0'', Opt_d ''Digitakt''] = 0 \<and>
   0 < times_given CHR ''n'' [Opt_n ''0'', Opt_d ''Digitakt''] \<and>
   0 < times_given CHR ''d'' [Opt_n ''0'', Opt_d ''Digitakt''] \<and>
   fst (main example_world [Opt_n ''0'', Opt_d ''Digitakt'']) = Inr EXIT_FAILURE \<and>
   filter touches_device (trace (snd (main example_world [Opt_n ''0'', Opt_d ''Digitakt'']))) = []"
proof -
  have h1: "times_given CHR ''h'' [Opt_n ''0'', Opt_d ''Digitakt''] = 0"
    and h2: "times_given CHR ''l'' [Opt_n ''0'', Opt_d ''Digitakt''] = 0"
    and h3: "0 < times_given CHR ''n'' [Opt_n ''0'', Opt_d ''Digitakt'']"
    and h4: "0 < times_given CHR ''d'' [Opt_n ''0'', Opt_d ''Digitakt'']"
    by (simp_all add: times_given_def)
  show ?thesis
    using h1 h2 h3 h4 index_and_name_rejected [OF h1 h2 h3 h4, of example_world]
    by simp
qed

text \<open>
  C6, as the claim states it, fails: when \<^verbatim>\<open>getopt_long\<close> returns \<^verbatim>\<open>'?'\<close> for an
  option beside the list-devices flag (an option that is not in the table, or one of
  the five options with an argument given without it), the program prints the usage and
  exits with status 1 on a bus that lists without error, and with the help flag it
  prints the usage; in both cases \<^verbatim>\<open>print_devices\<close> is not called.
\<close>

theorem list_devices_not_always_listed:
  "print_devices example_world = 0 \<and>
   fst (main example_world [Opt_l, Opt_unknown]) = Inr 1 \<and>
   trace (snd (main example_world [Opt_l, Opt_unknown])) = [Print_help] \<and>
   trace (snd (main example_world [Opt_l, Opt_h])) = [Print_help]"
  by code_simp

text \<open>
  C6, amended. On a command line with the list-devices flag, without the help flag and
  without an option for which \<^verbatim>\<open>getopt_long\<close> returns \<^verbatim>\<open>'?'\<close> (an unrecognised
  option, or an option that needs an argument and has none): \<^verbatim>\<open>main\<close> calls \<^verbatim>\<open>print_devices\<close>; when that returns 0
  the status is \<^verbatim>\<open>EXIT_SUCCESS\<close> (0), otherwise an error message follows and the status
  is \<^verbatim>\<open>EXIT_FAILURE\<close> (not 0). Apart from warnings of the option loop nothing else
  happens, and no thread is created.
\<close>

theorem list_devices_short_circuits:
  assumes "0 < times_given CHR ''l'' argv"
    and "times_given CHR ''h'' argv = 0" and "times_given CHR ''?'' argv = 0"
  shows "(print_devices w = 0 \<longrightarrow>
            fst (main w argv) = Inr EXIT_SUCCESS \<and> EXIT_SUCCESS = 0 \<and>
            filter (\<lambda>e. \<not> is_warning e) (trace (snd (main w argv))) = [Call_print_devices]) \<and>
         (print_devices w \<noteq> 0 \<longrightarrow>
            fst (main w argv) = Inr EXIT_FAILURE \<and> EXIT_FAILURE \<noteq> 0 \<and>
            filter (\<lambda>e. \<not> is_warning e) (trace (snd (main w argv))) =
              [Call_print_devices, Stderr_usb_error (print_devices w)]) \<and>
         created (trace (snd (main w argv))) = []"
  using main_lists_devices [OF assms(2) assms(3) assms(1), of w]
  by (simp add: EXIT_SUCCESS_def EXIT_FAILURE_def)

theorem list_devices_short_circuits_witness:
  "0 < times_given CHR ''l'' [Opt_q ''9'', Opt_l] \<and>
   times_given CHR ''h'' [Opt_q ''9'', Opt_l] = 0 \<and>
   times_given CHR ''?'' [Opt_q ''9'', Opt_l] = 0 \<and>
   print_devices example_world = 0 \<and>
   fst (main example_world [Opt_q ''9'', Opt_l]) = Inr EXIT_SUCCESS \<and>
   filter (\<lambda>e. \<not> is_warning e) (trace (snd (main example_world [Opt_q ''9'', Opt_l]))) =
     [Call_print_devices] \<and>
   print_devices (example_world\<lparr>print_devices := 3\<rparr>) \<noteq> 0 \<and>
   fst (main (example_world\<lparr>print_devices := 3\<rparr>) [Opt_q ''9'', Opt_l]) = Inr EXIT_FAILURE"
proof -
  have h1: "0 < times_given CHR ''l'' [Opt_q ''9'', Opt_l]"
    and h2: "times_given CHR ''h'' [Opt_q ''9'', Opt_l] = 0"
    and h3: "times_given CHR ''?'' [Opt_q ''9'', Opt_l] = 0"
    by (simp_all add: times_given_def)
  have h4: "print_devices example_world = 0"
    and h5: "print_devices (example_world\<lparr>print_devices := 3\<rparr>) \<noteq> 0"
    by (simp_all add: example_world_def)
  show ?thesis
    using h1 h2 h3 h4 h5 list_devices_short_circuits [OF h1 h2 h3, of example_world]
      list_devices_short_circuits [OF h1 h2 h3, of "example_world\<lparr>print_devices := 3\<rparr>"]
    by simp
qed

text \<open>
  C10, as the claim states it, fails: with an option for which \<^verbatim>\<open>getopt_long\<close>
  returns \<^verbatim>\<open>'?'\<close>, or the help flag, beside the list-devices flag and a block count
  given twice, the program prints the usage and does not list the devices; in the first
  case the status is 1 on a bus that lists without error.
\<close>

theorem list_devices_with_repeat_not_always_listed:
  "print_devices example_world = 0 \<and>
   fst (main example_world [Opt_l, Opt_b ''2'', Opt_b ''3'', Opt_unknown]) = Inr 1 \<and>
   trace (snd (main example_world [Opt_l, Opt_b ''2'', Opt_b ''3'', Opt_unknown])) =
     [Print_help] \<and>
   trace (snd (main example_world [Opt_l, Opt_b ''2'', Opt_b ''3'', Opt_h])) = [Print_help]"
  by code_simp

text \<open>
  C10, amended. On a command line with the list-devices flag, without the help flag and
  without an option for which \<^verbatim>\<open>getopt_long\<close> returns \<^verbatim>\<open>'?'\<close> (an unrecognised
  option, or an option that needs an argument and has none), where the block count or the priority is given more than
  once, and with a \<^verbatim>\<open>print_devices\<close> that returns 0: \<^verbatim>\<open>main\<close> calls
  \<^verbatim>\<open>print_devices\<close> and exits with status 0; neither duplicate-option message is
  written.
\<close>

theorem list_devices_precedes_duplicate_checks:
  assumes "0 < times_given CHR ''l'' argv"
    and "times_given CHR ''h'' argv = 0" and "times_given CHR ''?'' argv = 0"
    and "1 < times_given CHR ''b'' argv \<or> 1 < times_given CHR ''p'' argv"
    and "print_devices w = 0"
  shows "fst (main w argv) = Inr EXIT_SUCCESS \<and> EXIT_SUCCESS = 0 \<and>
         filter (\<lambda>e. \<not> is_warning e) (trace (snd (main w argv))) = [Call_print_devices] \<and>
         Stderr_undetermined_blocks \<notin> set (trace (snd (main w argv))) \<and>
         Stderr_undetermined_priority \<notin> set (trace (snd (main w argv)))"
proof -
  have l: "fst (main w argv) = Inr EXIT_SUCCESS"
    and t: "filter (\<lambda>e. \<not> is_warning e) (trace (snd (main w argv))) = [Call_print_devices]"
    using main_lists_devices [OF assms(2) assms(3) assms(1), of w] assms(5) by simp_all
  have "e \<notin> set (trace (snd (main w argv)))" if "\<not> is_warning e" "e \<noteq> Call_print_devices" for e
  proof
    assume "e \<in> set (trace (snd (main w argv)))"
    with that(1) have "e \<in> set (filter (\<lambda>e. \<not> is_warning e) (trace (snd (main w argv))))"
      by simp
    with that(2) show False unfolding t by simp
  qed
  then have "Stderr_undetermined_blocks \<notin> set (trace (snd (main w argv)))"
    and "Stderr_undetermined_priority \<notin> set (trace (snd (main w argv)))"
    by simp_all
  then show ?thesis
    using l t by (simp add: EXIT_SUCCESS_def)
qed

theorem list_devices_precedes_duplicate_checks_witness:
  "0 < times_given CHR ''l'' [Opt_b ''2'', Opt_l, Opt_b ''3''] \<and>
   times_given CHR ''h'' [Opt_b ''2'', Opt_l, Opt_b ''3''] = 0 \<and>
   times_given CHR ''?'' [Opt_b ''2'', Opt_l, Opt_b ''3''] = 0 \<and>
   (1 < times_given CHR ''b'' [Opt_b ''2'', Opt_l, Opt_b ''3''] \<or>
    1 < times_given CHR ''p'' [Opt_b ''2'', Opt_l, Opt_b ''3'']) \<and>
   print_devices example_world = 0 \<and>
   fst (main example_world [Opt_b ''2'', Opt_l, Opt_b ''3'']) = Inr EXIT_SUCCESS \<and>
   Stderr_undetermined_blocks \<notin> set (trace (snd (main example_world [Opt_b ''2'', Opt_l, Opt_b ''3''])))"
proof -
  have h1: "0 < times_given CHR ''l'' [Opt_b ''2'', Opt_l, Opt_b ''3'']"
    and h2: "times_given CHR ''h'' [Opt_b ''2'', Opt_l, Opt_b ''3''] = 0"
    and h3: "times_given CHR ''?'' [Opt_b ''2'', Opt_l, Opt_b ''3''] = 0"
    and h4: "1 < times_given CHR ''b'' [Opt_b ''2'', Opt_l, Opt_b ''3''] \<or>
             1 < times_given CHR ''p'' [Opt_b ''2'', Opt_l, Opt_b ''3'']"
    by (simp_all add: times_given_def)
  have h5: "print_devices example_world = 0"
    by (simp add: example_world_def)
  show ?thesis
    using h1 h2 h3 h4 h5 list_devices_precedes_duplicate_checks [OF h1 h2 h3 h4 h5]
    by simp
qed

end
